theory Spec2Isabelle
  imports Main "HOL-Library.Word" "HOL-Library.Sublist"
begin

section \<open>Guardian-Bot: the chat session engine of \<^verbatim>\<open>src/pages/ChatSupport.tsx\<close>\<close>

text \<open>
  The component \<^verbatim>\<open>ChatSupport\<close> keeps its state in React hooks and reacts to events:
  the mount effect, the form submission, the settling of the backend promise, the
  geolocation callbacks, the microphone button and the callbacks of the speech
  recogniser. Each handler is embedded as a function from the state before the event to
  the state after it. The effects that leave the component (the persistence store, the
  notifications, the requests to the backend, the utterances, the calls on the
  recogniser) are kept as logs in the same record, so that "nothing was sent" and
  "one message was persisted" are statements about values.

  A handler reads the values of the render in which it was created. React renders again
  after every state change and before the next event is handled, so a handler is applied
  here to the current state.
\<close>

subsection \<open>JavaScript strings\<close>

text \<open>
  A JavaScript string is a sequence of UTF-16 code units. Literals of the source are
  ASCII and are written with \<open>js_lit\<close>.
\<close>

type_synonym jsstring = "16 word list"

definition js_lit :: "string \<Rightarrow> jsstring" where
  "js_lit cs = map (\<lambda>c. word_of_nat (of_char c)) cs"

text \<open>
  \<^verbatim>\<open>String.prototype.trim\<close> removes white space and line terminators from both ends:
  TAB, LF, VT, FF, CR, SP, NBSP, the Unicode space separators, LS, PS and the BOM.
\<close>

definition js_whitespace :: "16 word \<Rightarrow> bool" where
  "js_whitespace c \<longleftrightarrow>
     c = 0x0009 \<or> c = 0x000A \<or> c = 0x000B \<or> c = 0x000C \<or> c = 0x000D \<or> c = 0x0020 \<or>
     c = 0x00A0 \<or> c = 0x1680 \<or> (0x2000 \<le> c \<and> c \<le> 0x200A) \<or>
     c = 0x2028 \<or> c = 0x2029 \<or> c = 0x202F \<or> c = 0x205F \<or> c = 0x3000 \<or> c = 0xFEFF"

definition trim :: "jsstring \<Rightarrow> jsstring" where
  "trim s = rev (dropWhile js_whitespace (rev (dropWhile js_whitespace s)))"

subsection \<open>Data\<close>

record message =
  role :: jsstring
  content :: jsstring
  created_at :: jsstring

text \<open>The entries of \<^verbatim>\<open>apiMessages\<close>: role and content only.\<close>

record api_message =
  api_role :: jsstring
  api_content :: jsstring

definition ROLE_SYSTEM :: jsstring where
  "ROLE_SYSTEM = js_lit ''system''"

definition ROLE_USER :: jsstring where
  "ROLE_USER = js_lit ''user''"

definition ROLE_ASSISTANT :: jsstring where
  "ROLE_ASSISTANT = js_lit ''assistant''"

definition SYSTEM_PROMPT :: jsstring where
  "SYSTEM_PROMPT = js_lit
     (''You are GuardianBot, an AI emergency response assistant. Your role is to:\<newline>'' @
      ''1. Help people report emergencies and incidents\<newline>'' @
      ''2. Provide immediate safety guidance\<newline>'' @
      ''3. Collect relevant information (location, situation details)\<newline>'' @
      ''4. Offer emotional support\<newline>'' @
      ''5. Guide users through the emergency response process\<newline>'' @
      ''\<newline>'' @
      ''Always maintain a calm, professional tone. For serious emergencies, emphasize the importance of contacting emergency services first.'')"

text \<open>\<^verbatim>\<open>toast.error\<close> and \<^verbatim>\<open>toast.success\<close>.\<close>

datatype toast = ToastError jsstring | ToastSuccess jsstring

text \<open>
  The coordinates are JavaScript numbers. The component only stores them and
  interpolates them into a template literal, so their type is a parameter \<open>'n\<close>, and the
  conversion of a number to a string is a parameter \<open>numToString\<close> of the callback.
\<close>

record 'n location =
  lat :: 'n
  lng :: 'n

text \<open>The recogniser object built by the effect, with the three properties it sets.\<close>

record recognizer =
  continuous :: bool
  interimResults :: bool
  lang :: jsstring

datatype rec_call = RecStart | RecStop

text \<open>\<^verbatim>\<open>SpeechSynthesisUtterance\<close>: the text and \<^verbatim>\<open>utterance.lang\<close>.\<close>

record utterance =
  utter_text :: jsstring
  utter_lang :: jsstring

text \<open>What the browser offers: the three capability tests of the source.\<close>

record platform =
  hasSpeechRecognition :: bool
  hasSpeechSynthesis :: bool
  hasGeolocation :: bool

text \<open>
  The six \<^verbatim>\<open>useState\<close> cells, \<^verbatim>\<open>i18n.language\<close>, and the logs of the effects:
  \<open>store\<close> is the persisted sequence behind \<^verbatim>\<open>storage\<close>, \<open>toasts\<close> the notifications
  shown, \<open>sent\<close> the argument of every call of \<^verbatim>\<open>sendChatMessage\<close>, \<open>outstanding\<close> the
  number of those calls that have not settled, \<open>spoken\<close> the utterances handed to
  \<^verbatim>\<open>speechSynthesis.speak\<close>, \<open>rec_calls\<close> the calls on the recogniser, and
  \<open>geo_requests\<close> the number of calls of \<^verbatim>\<open>getCurrentPosition\<close>.
\<close>

record 'n state =
  messages :: "message list"
  input :: jsstring
  isTyping :: bool
  location :: "'n location option"
  isRecording :: bool
  recognition :: "recognizer option"
  language :: jsstring
  store :: "message list"
  toasts :: "toast list"
  sent :: "api_message list list"
  outstanding :: nat
  spoken :: "utterance list"
  rec_calls :: "rec_call list"
  geo_requests :: nat

text \<open>The state of the first render, over a given store and language.\<close>

definition initial_state :: "message list \<Rightarrow> jsstring \<Rightarrow> 'n state" where
  "initial_state st lg =
     \<lparr>messages = [], input = [], isTyping = False, location = None, isRecording = False,
      recognition = None, language = lg, store = st, toasts = [], sent = [],
      outstanding = 0, spoken = [], rec_calls = [], geo_requests = 0\<rparr>"

subsection \<open>The persistence store\<close>

text \<open>
  Modelled from the spec: \<^verbatim>\<open>../lib/storage\<close> is not among the sources. Section 4.2 of
  the specification gives its contract: \<open>load\<close> returns the persisted ordered sequence
  (empty when there is none) and does not fail.
\<close>

definition getChatMessages :: "message list \<Rightarrow> message list" where
  "getChatMessages st = st"

text \<open>
  Modelled from the spec: \<^verbatim>\<open>../lib/storage\<close> is not among the sources. Section 4.2:
  \<open>append\<close> records one message after all previously recorded ones.
\<close>

definition saveChatMessage :: "message \<Rightarrow> message list \<Rightarrow> message list" where
  "saveChatMessage m st = st @ [m]"

subsection \<open>The mount effect (lines 35 to 73)\<close>

text \<open>
  \<open>t\<close> is the translation function of \<^verbatim>\<open>useTranslation\<close>, which depends on the
  language; \<open>now\<close> is \<^verbatim>\<open>new Date().toISOString()\<close>.
\<close>

definition initialize ::
  "platform \<Rightarrow> (jsstring \<Rightarrow> jsstring \<Rightarrow> jsstring) \<Rightarrow> jsstring \<Rightarrow> 'n state \<Rightarrow> 'n state" where
  "initialize p t now s =
     (let s1 = (if hasSpeechRecognition p
                then s\<lparr>recognition :=
                          Some \<lparr>continuous = False, interimResults = False, lang = language s\<rparr>\<rparr>
                else s);
          savedMessages = getChatMessages (store s1)
      in if length savedMessages = 0
         then let initialMessage =
                    \<lparr>role = ROLE_ASSISTANT,
                     content = t (language s1) (js_lit ''chat.initialMessage''),
                     created_at = now\<rparr>
              in s1\<lparr>store := saveChatMessage initialMessage (store s1),
                    messages := [initialMessage]\<rparr>
         else s1\<lparr>messages := savedMessages\<rparr>)"

text \<open>The callbacks installed on the recogniser (lines 43 to 55).\<close>

definition recognition_onresult :: "jsstring \<Rightarrow> 'n state \<Rightarrow> 'n state" where
  "recognition_onresult transcript s = s\<lparr>input := transcript\<rparr>"

definition recognition_onerror :: "'n state \<Rightarrow> 'n state" where
  "recognition_onerror s = s\<lparr>isRecording := False\<rparr>"

definition recognition_onend :: "'n state \<Rightarrow> 'n state" where
  "recognition_onend s = s\<lparr>isRecording := False\<rparr>"

subsection \<open>\<^verbatim>\<open>toggleVoiceInput\<close> (lines 83 to 95)\<close>

text \<open>
  The handler calls \<^verbatim>\<open>start\<close> or \<^verbatim>\<open>stop\<close> on the recogniser; the calls are logged.
  What the recogniser then does reaches the component through the three callbacks
  above, as events of their own.
\<close>

definition toggleVoiceInput :: "'n state \<Rightarrow> 'n state" where
  "toggleVoiceInput s =
     (case recognition s of
        None \<Rightarrow>
          s\<lparr>toasts := toasts s @
               [ToastError (js_lit ''Speech recognition is not supported in your browser'')]\<rparr>
      | Some r \<Rightarrow>
          if isRecording s
          then s\<lparr>rec_calls := rec_calls s @ [RecStop]\<rparr>
          else s\<lparr>rec_calls := rec_calls s @ [RecStart], isRecording := True\<rparr>)"

subsection \<open>\<^verbatim>\<open>speakMessage\<close> (lines 97 to 103)\<close>

definition speakMessage :: "platform \<Rightarrow> jsstring \<Rightarrow> 'n state \<Rightarrow> 'n state" where
  "speakMessage p txt s =
     (if hasSpeechSynthesis p
      then s\<lparr>spoken := spoken s @ [\<lparr>utter_text = txt, utter_lang = language s\<rparr>]\<rparr>
      else s)"

subsection \<open>\<^verbatim>\<open>handleSubmit\<close> (lines 105 to 145)\<close>

text \<open>The request of lines 120 to 124, from the messages and the input of the render.\<close>

definition strip :: "message \<Rightarrow> api_message" where
  "strip msg = \<lparr>api_role = role msg, api_content = content msg\<rparr>"

definition apiMessages :: "'n state \<Rightarrow> api_message list" where
  "apiMessages s =
     \<lparr>api_role = ROLE_SYSTEM, api_content = SYSTEM_PROMPT\<rparr> #
     map strip (messages s) @
     [\<lparr>api_role = ROLE_USER, api_content = input s\<rparr>]"

text \<open>
  The part of \<^verbatim>\<open>handleSubmit\<close> that runs at once: from the guard of line 107 to the
  call of \<^verbatim>\<open>sendChatMessage\<close> in line 127, where the handler waits.
\<close>

definition handleSubmit_dispatch :: "jsstring \<Rightarrow> 'n state \<Rightarrow> 'n state" where
  "handleSubmit_dispatch now s =
     (if trim (input s) = [] then s
      else let userMessage = \<lparr>role = ROLE_USER, content = input s, created_at = now\<rparr>
           in s\<lparr>messages := messages s @ [userMessage],
                store := saveChatMessage userMessage (store s),
                input := [],
                isTyping := True,
                sent := sent s @ [apiMessages s],
                outstanding := Suc (outstanding s)\<rparr>)"

text \<open>
  What the awaited promise gives: it is rejected, or it is fulfilled with a value, which
  is a string or \<^verbatim>\<open>null\<close>/\<^verbatim>\<open>undefined\<close>. The test \<^verbatim>\<open>if (response)\<close> is false
  for \<^verbatim>\<open>null\<close>, \<^verbatim>\<open>undefined\<close> and the empty string.
\<close>

datatype reply = ReplyText jsstring | ReplyNullish

datatype outcome = Fulfilled reply | Rejected

fun truthy :: "reply \<Rightarrow> bool" where
  "truthy (ReplyText r) = (r \<noteq> [])"
| "truthy ReplyNullish = False"

text \<open>
  The rest of \<^verbatim>\<open>handleSubmit\<close>, which runs when the promise settles: the body of
  \<^verbatim>\<open>try\<close> after the \<^verbatim>\<open>await\<close>, \<^verbatim>\<open>catch\<close> and \<^verbatim>\<open>finally\<close> (lines 129 to 144).
\<close>

definition handleSubmit_settle :: "platform \<Rightarrow> outcome \<Rightarrow> jsstring \<Rightarrow> 'n state \<Rightarrow> 'n state" where
  "handleSubmit_settle p out now s =
     (let s1 = (case out of
                  Fulfilled (ReplyText response) \<Rightarrow>
                    if truthy (ReplyText response)
                    then let botResponse =
                               \<lparr>role = ROLE_ASSISTANT, content = response, created_at = now\<rparr>
                         in speakMessage p response
                              (s\<lparr>messages := messages s @ [botResponse],
                                 store := saveChatMessage botResponse (store s)\<rparr>)
                    else s
                | Fulfilled ReplyNullish \<Rightarrow> s
                | Rejected \<Rightarrow>
                    s\<lparr>toasts := toasts s @
                         [ToastError (js_lit ''Failed to get response. Please try again.'')]\<rparr>)
      in s1\<lparr>isTyping := False, outstanding := outstanding s1 - 1\<rparr>)"

text \<open>
  One whole call of \<^verbatim>\<open>handleSubmit\<close> with no other event between the dispatch and the
  settling: \<open>backend\<close> is \<^verbatim>\<open>sendChatMessage\<close>, \<open>now\<close> and \<open>now'\<close> are the two
  readings of the clock.
\<close>

definition handleSubmit ::
  "platform \<Rightarrow> (api_message list \<Rightarrow> outcome) \<Rightarrow> jsstring \<Rightarrow> jsstring \<Rightarrow> 'n state \<Rightarrow> 'n state" where
  "handleSubmit p backend now now' s =
     (if trim (input s) = [] then s
      else handleSubmit_settle p (backend (apiMessages s)) now' (handleSubmit_dispatch now s))"

text \<open>The \<^verbatim>\<open>disabled\<close> attribute of the submit button (line 296).\<close>

definition submit_disabled :: "'n state \<Rightarrow> bool" where
  "submit_disabled s \<longleftrightarrow> trim (input s) = [] \<or> isTyping s"

subsection \<open>\<^verbatim>\<open>shareLocation\<close> (lines 147 to 170)\<close>

definition pin_glyph :: jsstring where
  "pin_glyph = [0xD83D, 0xDCCD]"

text \<open>The success callback of \<^verbatim>\<open>getCurrentPosition\<close> (lines 150 to 166).\<close>

definition position_success ::
  "('n \<Rightarrow> jsstring) \<Rightarrow> 'n \<Rightarrow> 'n \<Rightarrow> jsstring \<Rightarrow> 'n state \<Rightarrow> 'n state" where
  "position_success numToString latitude longitude now s =
     (let newLocation = \<lparr>lat = latitude, lng = longitude\<rparr>;
          locationMessage =
            \<lparr>role = ROLE_USER,
             content = pin_glyph @ js_lit '' Location shared: '' @ numToString (lat newLocation) @
                       js_lit '', '' @ numToString (lng newLocation),
             created_at = now\<rparr>
      in s\<lparr>location := Some newLocation,
           messages := messages s @ [locationMessage],
           store := saveChatMessage locationMessage (store s),
           toasts := toasts s @ [ToastSuccess (js_lit ''Location shared successfully'')]\<rparr>)"

text \<open>The error callback (line 167).\<close>

definition position_error :: "'n state \<Rightarrow> 'n state" where
  "position_error s = s\<lparr>toasts := toasts s @ [ToastError (js_lit ''Could not get your location'')]\<rparr>"

text \<open>The handler itself: it asks for the position when the capability is there.\<close>

definition shareLocation :: "platform \<Rightarrow> 'n state \<Rightarrow> 'n state" where
  "shareLocation p s =
     (if hasGeolocation p then s\<lparr>geo_requests := Suc (geo_requests s)\<rparr> else s)"

text \<open>
  One whole location share: the handler, and the callback that the position request
  invokes when there is one.
\<close>

datatype 'n position_result = PositionOk 'n 'n | PositionFailed

definition shareLocation_outcome ::
  "platform \<Rightarrow> ('n \<Rightarrow> jsstring) \<Rightarrow> 'n position_result \<Rightarrow> jsstring \<Rightarrow> 'n state \<Rightarrow> 'n state" where
  "shareLocation_outcome p numToString res now s =
     (if hasGeolocation p
      then (case res of
              PositionOk la lo \<Rightarrow> position_success numToString la lo now (shareLocation p s)
            | PositionFailed \<Rightarrow> position_error (shareLocation p s))
      else shareLocation p s)"

subsection \<open>Events and runs\<close>

text \<open>
  Everything that can happen to the component. \<open>ChangeLanguage\<close> is the language
  selector: the effect of line 35 depends on \<^verbatim>\<open>i18n.language\<close> and runs again when it
  changes. \<open>Submit\<close> is the form's \<^verbatim>\<open>onSubmit\<close>; the run does not ask that the button
  is enabled, so it covers every way of reaching the handler.
\<close>

datatype 'n event =
    Mount jsstring
  | ChangeLanguage jsstring jsstring
  | ChangeInput jsstring
  | Submit jsstring
  | BackendSettles outcome jsstring
  | ShareLocation
  | PositionArrives 'n 'n jsstring
  | PositionFails
  | ToggleVoice
  | RecognitionResult jsstring
  | RecognitionError
  | RecognitionEnd

fun step ::
  "platform \<Rightarrow> (jsstring \<Rightarrow> jsstring \<Rightarrow> jsstring) \<Rightarrow> ('n \<Rightarrow> jsstring) \<Rightarrow> 'n state \<Rightarrow> 'n event \<Rightarrow> 'n state" where
  "step p t ns s (Mount now) = initialize p t now s"
| "step p t ns s (ChangeLanguage code now) =
     (if code = language s then s else initialize p t now (s\<lparr>language := code\<rparr>))"
| "step p t ns s (ChangeInput v) = s\<lparr>input := v\<rparr>"
| "step p t ns s (Submit now) = handleSubmit_dispatch now s"
| "step p t ns s (BackendSettles out now) = handleSubmit_settle p out now s"
| "step p t ns s ShareLocation = shareLocation p s"
| "step p t ns s (PositionArrives la lo now) = position_success ns la lo now s"
| "step p t ns s PositionFails = position_error s"
| "step p t ns s ToggleVoice = toggleVoiceInput s"
| "step p t ns s (RecognitionResult tr) = recognition_onresult tr s"
| "step p t ns s RecognitionError = recognition_onerror s"
| "step p t ns s RecognitionEnd = recognition_onend s"

definition run ::
  "platform \<Rightarrow> (jsstring \<Rightarrow> jsstring \<Rightarrow> jsstring) \<Rightarrow> ('n \<Rightarrow> jsstring) \<Rightarrow> 'n state \<Rightarrow> 'n event list \<Rightarrow> 'n state" where
  "run p t ns s evs = foldl (step p t ns) s evs"

subsection \<open>A concrete session\<close>

text \<open>
  A browser with every capability, a translation that answers \<open>Hello\<close>, and the state
  after mounting on an empty store and typing \<open>hi\<close>.
\<close>

definition demo_platform :: platform where
  "demo_platform = \<lparr>hasSpeechRecognition = True, hasSpeechSynthesis = True, hasGeolocation = True\<rparr>"

definition demo_t :: "jsstring \<Rightarrow> jsstring \<Rightarrow> jsstring" where
  "demo_t lg key = js_lit ''Hello''"

definition demo_numToString :: "int \<Rightarrow> jsstring" where
  "demo_numToString n = (if n = 12 then js_lit ''12'' else js_lit ''77'')"

definition ready_state :: "int state" where
  "ready_state =
     run demo_platform demo_t demo_numToString (initial_state [] (js_lit ''en''))
       [Mount (js_lit ''t0''), ChangeInput (js_lit ''hi'')]"

text \<open>The same session after submitting \<open>hi\<close> and typing \<open>ok\<close> while the reply is awaited.\<close>

definition busy_state :: "int state" where
  "busy_state =
     run demo_platform demo_t demo_numToString ready_state
       [Submit (js_lit ''t1''), ChangeInput (js_lit ''ok'')]"

text \<open>A whole exchange: mount, type, submit, and the reply \<open>ok\<close>.\<close>

definition session_events :: "int event list" where
  "session_events =
     [Mount (js_lit ''t0''), ChangeInput (js_lit ''hi''), Submit (js_lit ''t1''),
      BackendSettles (Fulfilled (ReplyText (js_lit ''ok''))) (js_lit ''t2'')]"

text \<open>The greeting as an earlier visit stored it.\<close>

definition stored_greeting :: message where
  "stored_greeting =
     \<lparr>role = ROLE_ASSISTANT, content = js_lit ''Hello'', created_at = js_lit ''t0''\<rparr>"

text \<open>A stored message with the system role, as a foreign writer of the store could leave it.\<close>

definition system_message :: message where
  "system_message = \<lparr>role = ROLE_SYSTEM, content = js_lit ''x'', created_at = js_lit ''t''\<rparr>"

text \<open>A request that begins with a system message.\<close>

definition headed :: "api_message list \<Rightarrow> bool" where
  "headed req \<longleftrightarrow> (case req of [] \<Rightarrow> False | h # _ \<Rightarrow> api_role h = ROLE_SYSTEM)"

section \<open>Properties\<close>

lemmas handler_defs =
  initialize_def recognition_onresult_def recognition_onerror_def recognition_onend_def
  toggleVoiceInput_def speakMessage_def handleSubmit_dispatch_def handleSubmit_settle_def
  position_success_def position_error_def shareLocation_def getChatMessages_def
  saveChatMessage_def Let_def

lemma roles_distinct:
  "ROLE_USER \<noteq> ROLE_SYSTEM" "ROLE_ASSISTANT \<noteq> ROLE_SYSTEM" "ROLE_USER \<noteq> ROLE_ASSISTANT"
  by (simp_all add: ROLE_USER_def ROLE_SYSTEM_def ROLE_ASSISTANT_def js_lit_def)

lemma ready_state_eq:
  "ready_state =
     \<lparr>messages = [\<lparr>role = ROLE_ASSISTANT, content = js_lit ''Hello'', created_at = js_lit ''t0''\<rparr>],
      input = js_lit ''hi'', isTyping = False, location = None, isRecording = False,
      recognition = Some \<lparr>continuous = False, interimResults = False, lang = js_lit ''en''\<rparr>,
      language = js_lit ''en'',
      store = [\<lparr>role = ROLE_ASSISTANT, content = js_lit ''Hello'', created_at = js_lit ''t0''\<rparr>],
      toasts = [], sent = [],
      outstanding = 0, spoken = [], rec_calls = [], geo_requests = 0\<rparr>"
  by (simp add: ready_state_def run_def initial_state_def handler_defs demo_platform_def demo_t_def)

lemma trim_hi: "trim (js_lit ''hi'') \<noteq> []"
  by (simp add: trim_def js_whitespace_def js_lit_def)

subsection \<open>The outbound request\<close>

lemma sent_settle: "sent (handleSubmit_settle p out now s) = sent s"
  by (simp add: handleSubmit_settle_def speakMessage_def Let_def split: outcome.splits reply.splits)

text \<open>
  Claim C1. When \<^verbatim>\<open>handleSubmit\<close> accepts its input (the trimmed input is not empty),
  it sends one request, which is: the system message with the fixed prompt, then every
  message of the session as it was before the submission, each reduced to its role and
  content and in the stored order, then one user message whose content is the input.
  The settling of the call sends nothing more.
\<close>

theorem submit_request_shape:
  assumes "trim (input s) \<noteq> []"
  shows "sent (handleSubmit_dispatch now s) =
           sent s @
           [\<lparr>api_role = ROLE_SYSTEM, api_content = SYSTEM_PROMPT\<rparr> #
            map (\<lambda>m. \<lparr>api_role = role m, api_content = content m\<rparr>) (messages s) @
            [\<lparr>api_role = ROLE_USER, api_content = input s\<rparr>]] \<and>
         sent (handleSubmit p backend now now' s) = sent (handleSubmit_dispatch now s)"
  using assms
  by (simp add: handleSubmit_def sent_settle)
     (simp add: handleSubmit_dispatch_def apiMessages_def strip_def Let_def)

theorem submit_request_shape_witness:
  "trim (input ready_state) \<noteq> [] \<and>
   sent (handleSubmit_dispatch (js_lit ''t1'') ready_state) =
     [[\<lparr>api_role = ROLE_SYSTEM, api_content = SYSTEM_PROMPT\<rparr>,
       \<lparr>api_role = ROLE_ASSISTANT, api_content = js_lit ''Hello''\<rparr>,
       \<lparr>api_role = ROLE_USER, api_content = js_lit ''hi''\<rparr>]]"
proof -
  have h: "trim (input ready_state) \<noteq> []"
    by (simp add: ready_state_eq trim_hi)
  show ?thesis
    using h submit_request_shape [OF h, of "js_lit ''t1''"] by (simp add: ready_state_eq)
qed

subsection \<open>Blank input\<close>

text \<open>
  Claim C7. When the input is empty or only white space, \<^verbatim>\<open>handleSubmit\<close> changes
  nothing: the whole state, with the message list, the store, the pending flag and the
  log of requests, is the one before the call.
\<close>

theorem blank_submit_noop:
  assumes "trim (input s) = []"
  shows "handleSubmit_dispatch now s = s \<and> handleSubmit p backend now now' s = s"
  using assms by (simp add: handleSubmit_dispatch_def handleSubmit_def)

theorem blank_submit_noop_witness:
  "trim (input ((initial_state [] (js_lit ''en'') :: int state)\<lparr>input := js_lit ''  ''\<rparr>)) = [] \<and>
   handleSubmit_dispatch (js_lit ''t1'')
     ((initial_state [] (js_lit ''en'') :: int state)\<lparr>input := js_lit ''  ''\<rparr>) =
     (initial_state [] (js_lit ''en''))\<lparr>input := js_lit ''  ''\<rparr> \<and>
   handleSubmit demo_platform (\<lambda>req. Rejected) (js_lit ''t1'') (js_lit ''t2'')
     ((initial_state [] (js_lit ''en'') :: int state)\<lparr>input := js_lit ''  ''\<rparr>) =
     (initial_state [] (js_lit ''en''))\<lparr>input := js_lit ''  ''\<rparr>"
proof -
  have h: "trim (input ((initial_state [] (js_lit ''en'') :: int state)\<lparr>input := js_lit ''  ''\<rparr>)) = []"
    by (simp add: trim_def js_whitespace_def js_lit_def)
  from h blank_submit_noop [OF h] show ?thesis by simp
qed

subsection \<open>A failing backend\<close>

text \<open>
  Claim C2. When an accepted submission meets a failing backend, the message list after
  the call is the list before it followed by the one user message, and so is the store;
  one error notification is added; the pending flag is false. The pending flag is false
  after the call whatever the backend did. For the settling step alone, in any state it
  finds: a rejection leaves the message list and the store as they are, and every
  outcome clears the pending flag.
\<close>

theorem backend_failure_keeps_user_message:
  assumes "trim (input s) \<noteq> []"
  shows "(backend (apiMessages s) = Rejected \<longrightarrow>
            messages (handleSubmit p backend now now' s) =
              messages s @ [\<lparr>role = ROLE_USER, content = input s, created_at = now\<rparr>] \<and>
            store (handleSubmit p backend now now' s) =
              store s @ [\<lparr>role = ROLE_USER, content = input s, created_at = now\<rparr>] \<and>
            toasts (handleSubmit p backend now now' s) =
              toasts s @ [ToastError (js_lit ''Failed to get response. Please try again.'')]) \<and>
         isTyping (handleSubmit p backend now now' s) = False \<and>
         messages (handleSubmit_settle p Rejected now' s') = messages s' \<and>
         store (handleSubmit_settle p Rejected now' s') = store s' \<and>
         isTyping (handleSubmit_settle p out now' s') = False"
proof -
  have settle_typing: "isTyping (handleSubmit_settle p out' now' s'') = False" for out' s''
    by (simp add: handleSubmit_settle_def Let_def)
  have settle_rejected:
    "messages (handleSubmit_settle p Rejected now' s'') = messages s'' \<and>
     store (handleSubmit_settle p Rejected now' s'') = store s'' \<and>
     toasts (handleSubmit_settle p Rejected now' s'') =
       toasts s'' @ [ToastError (js_lit ''Failed to get response. Please try again.'')]" for s''
    by (simp add: handleSubmit_settle_def Let_def)
  have dispatch:
    "messages (handleSubmit_dispatch now s) =
       messages s @ [\<lparr>role = ROLE_USER, content = input s, created_at = now\<rparr>] \<and>
     store (handleSubmit_dispatch now s) =
       store s @ [\<lparr>role = ROLE_USER, content = input s, created_at = now\<rparr>] \<and>
     toasts (handleSubmit_dispatch now s) = toasts s"
    using assms by (simp add: handleSubmit_dispatch_def saveChatMessage_def Let_def)
  have whole: "handleSubmit p backend now now' s =
      handleSubmit_settle p (backend (apiMessages s)) now' (handleSubmit_dispatch now s)"
    using assms by (simp add: handleSubmit_def)
  show ?thesis
    by (simp add: whole settle_typing settle_rejected dispatch)
qed

theorem backend_failure_keeps_user_message_witness:
  "trim (input ready_state) \<noteq> [] \<and>
   messages (handleSubmit demo_platform (\<lambda>req. Rejected) (js_lit ''t1'') (js_lit ''t2'') ready_state) =
     [\<lparr>role = ROLE_ASSISTANT, content = js_lit ''Hello'', created_at = js_lit ''t0''\<rparr>,
      \<lparr>role = ROLE_USER, content = js_lit ''hi'', created_at = js_lit ''t1''\<rparr>] \<and>
   toasts (handleSubmit demo_platform (\<lambda>req. Rejected) (js_lit ''t1'') (js_lit ''t2'') ready_state) =
     [ToastError (js_lit ''Failed to get response. Please try again.'')] \<and>
   isTyping (handleSubmit demo_platform (\<lambda>req. Rejected) (js_lit ''t1'') (js_lit ''t2'') ready_state) = False"
proof -
  have h: "trim (input ready_state) \<noteq> []"
    by (simp add: ready_state_eq trim_hi)
  from h backend_failure_keeps_user_message
         [OF h, where backend = "\<lambda>req. Rejected" and p = demo_platform and now = "js_lit ''t1''"
            and now' = "js_lit ''t2''" and s' = ready_state and out = Rejected]
  show ?thesis by (simp add: ready_state_eq)
qed

subsection \<open>An empty reply\<close>

text \<open>
  Claim C10. When the backend answers an accepted submission with a falsy reply (the
  empty string, \<^verbatim>\<open>null\<close> or \<^verbatim>\<open>undefined\<close>), the message list and the store gain the
  user message and nothing else, nothing is spoken, no notification is added and the
  pending flag is false. The settling step alone only clears the pending flag (and
  counts the call as settled).
\<close>

theorem falsy_reply_adds_nothing:
  assumes "trim (input s) \<noteq> []" and "backend (apiMessages s) = Fulfilled r" and "\<not> truthy r"
  shows "messages (handleSubmit p backend now now' s) =
           messages s @ [\<lparr>role = ROLE_USER, content = input s, created_at = now\<rparr>] \<and>
         store (handleSubmit p backend now now' s) =
           store s @ [\<lparr>role = ROLE_USER, content = input s, created_at = now\<rparr>] \<and>
         spoken (handleSubmit p backend now now' s) = spoken s \<and>
         toasts (handleSubmit p backend now now' s) = toasts s \<and>
         isTyping (handleSubmit p backend now now' s) = False \<and>
         handleSubmit_settle p (Fulfilled r) now' s' =
           s'\<lparr>isTyping := False, outstanding := outstanding s' - 1\<rparr>"
proof -
  have settle: "handleSubmit_settle p (Fulfilled r) now' s'' =
      s''\<lparr>isTyping := False, outstanding := outstanding s'' - 1\<rparr>" for s''
    using assms(3) by (cases r) (simp_all add: handleSubmit_settle_def Let_def)
  have whole: "handleSubmit p backend now now' s =
      handleSubmit_settle p (Fulfilled r) now' (handleSubmit_dispatch now s)"
    using assms(1,2) by (simp add: handleSubmit_def)
  have dispatch:
    "messages (handleSubmit_dispatch now s) =
       messages s @ [\<lparr>role = ROLE_USER, content = input s, created_at = now\<rparr>] \<and>
     store (handleSubmit_dispatch now s) =
       store s @ [\<lparr>role = ROLE_USER, content = input s, created_at = now\<rparr>] \<and>
     spoken (handleSubmit_dispatch now s) = spoken s \<and>
     toasts (handleSubmit_dispatch now s) = toasts s"
    using assms(1) by (simp add: handleSubmit_dispatch_def saveChatMessage_def Let_def)
  show ?thesis
    using dispatch by (simp add: whole settle)
qed

theorem falsy_reply_adds_nothing_witness:
  "trim (input ready_state) \<noteq> [] \<and> \<not> truthy (ReplyText []) \<and>
   messages (handleSubmit demo_platform (\<lambda>req. Fulfilled (ReplyText [])) (js_lit ''t1'') (js_lit ''t2'') ready_state) =
     [\<lparr>role = ROLE_ASSISTANT, content = js_lit ''Hello'', created_at = js_lit ''t0''\<rparr>,
      \<lparr>role = ROLE_USER, content = js_lit ''hi'', created_at = js_lit ''t1''\<rparr>] \<and>
   spoken (handleSubmit demo_platform (\<lambda>req. Fulfilled (ReplyText [])) (js_lit ''t1'') (js_lit ''t2'') ready_state) = [] \<and>
   toasts (handleSubmit demo_platform (\<lambda>req. Fulfilled (ReplyText [])) (js_lit ''t1'') (js_lit ''t2'') ready_state) = [] \<and>
   isTyping (handleSubmit demo_platform (\<lambda>req. Fulfilled (ReplyText [])) (js_lit ''t1'') (js_lit ''t2'') ready_state) = False"
proof -
  have h: "trim (input ready_state) \<noteq> []"
    by (simp add: ready_state_eq trim_hi)
  have f: "\<not> truthy (ReplyText [])" by simp
  from h f falsy_reply_adds_nothing
         [OF h _ f, where backend = "\<lambda>req. Fulfilled (ReplyText [])" and p = demo_platform
            and now = "js_lit ''t1''" and now' = "js_lit ''t2''" and s' = ready_state]
  show ?thesis by (simp add: ready_state_eq)
qed

subsection \<open>The mount effect\<close>

lemma step_synced:
  assumes "messages s = store s" "store s \<noteq> []"
  shows "messages (step p t ns s e) = store (step p t ns s e) \<and> store (step p t ns s e) \<noteq> []"
  using assms by (cases e) (auto simp: handler_defs split: option.splits outcome.splits reply.splits)

lemma run_synced:
  "messages s = store s \<Longrightarrow> store s \<noteq> [] \<Longrightarrow>
   messages (run p t ns s evs) = store (run p t ns s evs) \<and> store (run p t ns s evs) \<noteq> []"
  unfolding run_def
proof (induction evs arbitrary: s)
  case Nil
  then show ?case by simp
next
  case (Cons e evs)
  from step_synced [OF Cons.prems] Cons.IH show ?case by simp
qed

lemma initialize_synced:
  "messages (initialize p t now s) = store (initialize p t now s) \<and> store (initialize p t now s) \<noteq> []"
  by (simp add: initialize_def getChatMessages_def saveChatMessage_def Let_def)

text \<open>
  Claim C3. On an empty store the effect leaves exactly one message in the session, the
  assistant's greeting, and the store holds that message. On a store that is not empty
  the session becomes the stored sequence, as it is and in its order, and the store is
  not written. Once the effect has run, whatever events follow, running it again (as a
  change of language does) changes neither the message list nor the store: the greeting
  is not seeded a second time.
\<close>

theorem initialize_seeds_once:
  "(store s = [] \<longrightarrow>
      messages (initialize p t now s) =
        [\<lparr>role = ROLE_ASSISTANT, content = t (language s) (js_lit ''chat.initialMessage''),
          created_at = now\<rparr>] \<and>
      store (initialize p t now s) =
        [\<lparr>role = ROLE_ASSISTANT, content = t (language s) (js_lit ''chat.initialMessage''),
          created_at = now\<rparr>]) \<and>
   (store s \<noteq> [] \<longrightarrow>
      messages (initialize p t now s) = store s \<and> store (initialize p t now s) = store s) \<and>
   messages (initialize p' t' now' (run p t ns (initialize p t now s) evs)) =
     messages (run p t ns (initialize p t now s) evs) \<and>
   store (initialize p' t' now' (run p t ns (initialize p t now s) evs)) =
     store (run p t ns (initialize p t now s) evs)"
proof -
  have seed: "store s = [] \<longrightarrow>
      messages (initialize p t now s) =
        [\<lparr>role = ROLE_ASSISTANT, content = t (language s) (js_lit ''chat.initialMessage''),
          created_at = now\<rparr>] \<and>
      store (initialize p t now s) =
        [\<lparr>role = ROLE_ASSISTANT, content = t (language s) (js_lit ''chat.initialMessage''),
          created_at = now\<rparr>]"
    by (simp add: initialize_def getChatMessages_def saveChatMessage_def Let_def)
  have adopt: "store s' \<noteq> [] \<longrightarrow>
      messages (initialize q u n' s') = store s' \<and> store (initialize q u n' s') = store s'"
    for s' :: "'a state" and q u n'
    by (simp add: initialize_def getChatMessages_def Let_def)
  let ?r = "run p t ns (initialize p t now s) evs"
  have sync: "messages ?r = store ?r \<and> store ?r \<noteq> []"
    using initialize_synced [of p t now s] by (simp add: run_synced)
  with adopt [of ?r p' t' now'] have again:
    "messages (initialize p' t' now' ?r) = messages ?r \<and>
     store (initialize p' t' now' ?r) = store ?r"
    by simp
  from seed adopt [of s p t now] again show ?thesis by blast
qed

theorem initialize_seeds_once_witness:
  "store (initial_state [] (js_lit ''en'') :: int state) = [] \<and>
   messages (initialize demo_platform demo_t (js_lit ''t0'') (initial_state [] (js_lit ''en'') :: int state)) =
     [\<lparr>role = ROLE_ASSISTANT, content = js_lit ''Hello'', created_at = js_lit ''t0''\<rparr>] \<and>
   store ready_state \<noteq> [] \<and>
   messages (initialize demo_platform demo_t (js_lit ''t9'') ready_state) =
     [\<lparr>role = ROLE_ASSISTANT, content = js_lit ''Hello'', created_at = js_lit ''t0''\<rparr>] \<and>
   store (initialize demo_platform demo_t (js_lit ''t9'') ready_state) = store ready_state"
proof -
  have e: "store (initial_state [] (js_lit ''en'') :: int state) = []"
    by (simp add: initial_state_def)
  have n: "store ready_state \<noteq> []"
    by (simp add: ready_state_eq)
  have lg: "language (initial_state [] (js_lit ''en'') :: int state) = js_lit ''en''"
    by (simp add: initial_state_def)
  have st: "store ready_state =
      [\<lparr>role = ROLE_ASSISTANT, content = js_lit ''Hello'', created_at = js_lit ''t0''\<rparr>]"
    by (simp add: ready_state_eq)
  from initialize_seeds_once
         [where s = "initial_state [] (js_lit ''en'') :: int state" and p = demo_platform
            and t = demo_t and now = "js_lit ''t0''" and evs = "[]" and ns = demo_numToString
            and p' = demo_platform and t' = demo_t and now' = "js_lit ''t0''"]
       e lg
  have first: "messages (initialize demo_platform demo_t (js_lit ''t0'')
                  (initial_state [] (js_lit ''en'') :: int state)) =
     [\<lparr>role = ROLE_ASSISTANT, content = js_lit ''Hello'', created_at = js_lit ''t0''\<rparr>]"
    by (simp add: demo_t_def)
  from initialize_seeds_once
         [where s = ready_state and p = demo_platform and t = demo_t and now = "js_lit ''t9''"
            and evs = "[]" and ns = demo_numToString
            and p' = demo_platform and t' = demo_t and now' = "js_lit ''t9''"]
       n st
  have second: "messages (initialize demo_platform demo_t (js_lit ''t9'') ready_state) =
       [\<lparr>role = ROLE_ASSISTANT, content = js_lit ''Hello'', created_at = js_lit ''t0''\<rparr>] \<and>
     store (initialize demo_platform demo_t (js_lit ''t9'') ready_state) = store ready_state"
    by simp
  from e n first second show ?thesis by simp
qed

subsection \<open>Sharing the location\<close>

text \<open>
  Claim C4. Where the browser has geolocation: when the position arrives, the session
  and the store each gain exactly one message, a user message whose content holds the
  text of both coordinates as they were converted, the location is recorded and a
  success notification is added; when the position request fails, the session, the
  store and the location are as before and an error notification is added. In both
  cases the log of backend requests is unchanged. The same holds of the two callbacks
  in whatever state they are invoked: the first adds one message, the second none, and
  neither sends a request.
\<close>

theorem share_location_outcomes:
  assumes "hasGeolocation p"
  shows "(let s' = shareLocation_outcome p ns (PositionOk la lo) now s;
              m = \<lparr>role = ROLE_USER,
                   content = pin_glyph @ js_lit '' Location shared: '' @ ns la @ js_lit '', '' @ ns lo,
                   created_at = now\<rparr>
          in messages s' = messages s @ [m] \<and> store s' = store s @ [m] \<and>
             sublist (ns la) (content m) \<and> sublist (ns lo) (content m) \<and>
             location s' = Some \<lparr>lat = la, lng = lo\<rparr> \<and>
             toasts s' = toasts s @ [ToastSuccess (js_lit ''Location shared successfully'')] \<and>
             sent s' = sent s) \<and>
         (let s' = shareLocation_outcome p ns PositionFailed now s
          in messages s' = messages s \<and> store s' = store s \<and> location s' = location s \<and>
             toasts s' = toasts s @ [ToastError (js_lit ''Could not get your location'')] \<and>
             sent s' = sent s) \<and>
         length (messages (position_success ns la lo now r)) = Suc (length (messages r)) \<and>
         sent (position_success ns la lo now r) = sent r \<and>
         messages (position_error r) = messages r \<and>
         sent (position_error r) = sent r"
proof -
  have sub1: "sublist (ns la) (pin_glyph @ js_lit '' Location shared: '' @ ns la @ js_lit '', '' @ ns lo)"
    unfolding sublist_def
    by (rule exI [of _ "pin_glyph @ js_lit '' Location shared: ''"],
        rule exI [of _ "js_lit '', '' @ ns lo"]) simp
  have sub2: "sublist (ns lo) (pin_glyph @ js_lit '' Location shared: '' @ ns la @ js_lit '', '' @ ns lo)"
    unfolding sublist_def
    by (rule exI [of _ "pin_glyph @ js_lit '' Location shared: '' @ ns la @ js_lit '', ''"],
        rule exI [of _ "[]"]) simp
  show ?thesis
    using assms sub1 sub2
    by (simp add: shareLocation_outcome_def shareLocation_def position_success_def
          position_error_def saveChatMessage_def Let_def)
qed

theorem share_location_outcomes_witness:
  "hasGeolocation demo_platform \<and>
   messages (shareLocation_outcome demo_platform demo_numToString (PositionOk 12 77) (js_lit ''t1'') ready_state) =
     [\<lparr>role = ROLE_ASSISTANT, content = js_lit ''Hello'', created_at = js_lit ''t0''\<rparr>,
      \<lparr>role = ROLE_USER,
       content = pin_glyph @ js_lit '' Location shared: '' @ js_lit ''12'' @ js_lit '', '' @ js_lit ''77'',
       created_at = js_lit ''t1''\<rparr>] \<and>
   sent (shareLocation_outcome demo_platform demo_numToString (PositionOk 12 77) (js_lit ''t1'') ready_state) = [] \<and>
   messages (shareLocation_outcome demo_platform demo_numToString PositionFailed (js_lit ''t1'') ready_state) =
     [\<lparr>role = ROLE_ASSISTANT, content = js_lit ''Hello'', created_at = js_lit ''t0''\<rparr>] \<and>
   toasts (shareLocation_outcome demo_platform demo_numToString PositionFailed (js_lit ''t1'') ready_state) =
     [ToastError (js_lit ''Could not get your location'')]"
proof -
  have h: "hasGeolocation demo_platform"
    by (simp add: demo_platform_def)
  have m: "messages ready_state =
      [\<lparr>role = ROLE_ASSISTANT, content = js_lit ''Hello'', created_at = js_lit ''t0''\<rparr>]"
    and z: "sent ready_state = []" and y: "toasts ready_state = []"
    by (simp_all add: ready_state_eq)
  from share_location_outcomes
         [OF h, where ns = demo_numToString and la = 12 and lo = 77 and now = "js_lit ''t1''"
            and s = ready_state]
       h m z y
  show ?thesis by (simp add: Let_def demo_numToString_def)
qed

text \<open>
  Claim C9. Where the browser has no geolocation, \<^verbatim>\<open>shareLocation\<close> changes nothing:
  the whole state, with the message list, the store, the location and the
  notifications, is the one before the call.
\<close>

theorem no_geolocation_noop:
  assumes "\<not> hasGeolocation p"
  shows "shareLocation p s = s \<and> shareLocation_outcome p ns res now s = s"
  using assms by (simp add: shareLocation_def shareLocation_outcome_def)

theorem no_geolocation_noop_witness:
  "\<not> hasGeolocation (demo_platform\<lparr>hasGeolocation := False\<rparr>) \<and>
   shareLocation (demo_platform\<lparr>hasGeolocation := False\<rparr>) ready_state = ready_state \<and>
   shareLocation_outcome (demo_platform\<lparr>hasGeolocation := False\<rparr>) demo_numToString
     (PositionOk 12 77) (js_lit ''t1'') ready_state = ready_state"
proof -
  have h: "\<not> hasGeolocation (demo_platform\<lparr>hasGeolocation := False\<rparr>)" by simp
  from h no_geolocation_noop [OF h] show ?thesis by simp
qed

subsection \<open>Submitting while a reply is awaited\<close>

lemma busy_state_eq:
  "busy_state = ready_state
     \<lparr>messages := messages ready_state @
        [\<lparr>role = ROLE_USER, content = js_lit ''hi'', created_at = js_lit ''t1''\<rparr>],
      store := store ready_state @
        [\<lparr>role = ROLE_USER, content = js_lit ''hi'', created_at = js_lit ''t1''\<rparr>],
      input := js_lit ''ok'', isTyping := True, sent := [apiMessages ready_state],
      outstanding := 1\<rparr>"
  using trim_hi
  by (simp add: busy_state_def run_def handleSubmit_dispatch_def saveChatMessage_def Let_def
        ready_state_eq)

lemma trim_ok: "trim (js_lit ''ok'') \<noteq> []"
  by (simp add: trim_def js_whitespace_def js_lit_def)

lemma run_append: "run p t ns s (as @ bs) = run p t ns (run p t ns s as) bs"
  by (simp add: run_def)

lemma step_pending:
  assumes "isTyping s \<longrightarrow> 1 \<le> outstanding s"
  shows "isTyping (step p t ns s e) \<longrightarrow> 1 \<le> outstanding (step p t ns s e)"
  using assms
  by (cases e) (auto simp: handler_defs split: option.splits outcome.splits reply.splits)

lemma run_pending:
  "isTyping s \<longrightarrow> 1 \<le> outstanding s \<Longrightarrow>
   isTyping (run p t ns s evs) \<longrightarrow> 1 \<le> outstanding (run p t ns s evs)"
  unfolding run_def
proof (induction evs arbitrary: s)
  case Nil
  then show ?case by simp
next
  case (Cons e evs)
  from Cons.prems have "isTyping (step p t ns s e) \<longrightarrow> 1 \<le> outstanding (step p t ns s e)"
    by (rule step_pending)
  then show ?case using Cons.IH by simp
qed

lemma busy_state_run:
  "busy_state =
     run demo_platform demo_t demo_numToString (initial_state [] (js_lit ''en''))
       [Mount (js_lit ''t0''), ChangeInput (js_lit ''hi''), Submit (js_lit ''t1''),
        ChangeInput (js_lit ''ok'')]"
  by (simp add: busy_state_def ready_state_def run_def)

text \<open>
  Claim C5, as the specification states it, says that submission is not disabled while
  a request is pending. In the session that has submitted \<open>hi\<close> and typed \<open>ok\<close>, one
  request is outstanding, the pending flag is set, the input is not blank, and the
  submit button is disabled.
\<close>

theorem submit_button_counterexample:
  "isTyping busy_state \<and> outstanding busy_state = 1 \<and> trim (input busy_state) \<noteq> [] \<and>
   submit_disabled busy_state"
  by (simp add: busy_state_eq submit_disabled_def trim_ok)

text \<open>
  Claim C5, amended. The submit button is disabled exactly when the trimmed input is
  empty or the pending flag is set. \<^verbatim>\<open>handleSubmit\<close> itself does not test the
  pending flag: called with an input that is not blank while the flag is set, it
  appends and persists the user message and sends one more request, so that one more
  call is unsettled than before. In every state reached from the first render the flag
  is set only while a call is unsettled, so at least two calls are unsettled then.
\<close>

theorem submit_while_pending:
  "(submit_disabled s \<longleftrightarrow> trim (input s) = [] \<or> isTyping s) \<and>
   (trim (input s) \<noteq> [] \<and> isTyping s \<longrightarrow>
      messages (handleSubmit_dispatch now s) =
        messages s @ [\<lparr>role = ROLE_USER, content = input s, created_at = now\<rparr>] \<and>
      store (handleSubmit_dispatch now s) =
        store s @ [\<lparr>role = ROLE_USER, content = input s, created_at = now\<rparr>] \<and>
      sent (handleSubmit_dispatch now s) = sent s @ [apiMessages s] \<and>
      outstanding (handleSubmit_dispatch now s) = Suc (outstanding s)) \<and>
   (s = run p t ns (initial_state st lg) evs \<and> trim (input s) \<noteq> [] \<and> isTyping s \<longrightarrow>
      2 \<le> outstanding (handleSubmit_dispatch now s))"
proof -
  have button: "submit_disabled s \<longleftrightarrow> trim (input s) = [] \<or> isTyping s"
    by (simp add: submit_disabled_def)
  have handler: "trim (input s) \<noteq> [] \<and> isTyping s \<longrightarrow>
      messages (handleSubmit_dispatch now s) =
        messages s @ [\<lparr>role = ROLE_USER, content = input s, created_at = now\<rparr>] \<and>
      store (handleSubmit_dispatch now s) =
        store s @ [\<lparr>role = ROLE_USER, content = input s, created_at = now\<rparr>] \<and>
      sent (handleSubmit_dispatch now s) = sent s @ [apiMessages s] \<and>
      outstanding (handleSubmit_dispatch now s) = Suc (outstanding s)"
    by (simp add: handleSubmit_dispatch_def saveChatMessage_def Let_def)
  have two: "2 \<le> outstanding (handleSubmit_dispatch now s)"
    if r: "s = run p t ns (initial_state st lg) evs"
      and i: "trim (input s) \<noteq> []" and ty: "isTyping s"
  proof -
    have "isTyping (initial_state st lg :: 'a state) \<longrightarrow>
            1 \<le> outstanding (initial_state st lg :: 'a state)"
      by (simp add: initial_state_def)
    then have "isTyping s \<longrightarrow> 1 \<le> outstanding s"
      unfolding r by (rule run_pending)
    with ty have "1 \<le> outstanding s" by simp
    moreover from handler i ty
    have "outstanding (handleSubmit_dispatch now s) = Suc (outstanding s)"
      by simp
    ultimately show ?thesis by simp
  qed
  from button handler two show ?thesis by blast
qed

theorem submit_while_pending_witness:
  "submit_disabled (initial_state [] (js_lit ''en'') :: int state) \<and>
   \<not> submit_disabled ready_state \<and>
   trim (input busy_state) \<noteq> [] \<and> isTyping busy_state \<and> submit_disabled busy_state \<and>
   outstanding (handleSubmit_dispatch (js_lit ''t2'') busy_state) = 2 \<and>
   length (sent (handleSubmit_dispatch (js_lit ''t2'') busy_state)) = 2"
proof -
  have h1: "trim (input busy_state) \<noteq> []" by (simp add: busy_state_eq trim_ok)
  have h2: "isTyping busy_state" by (simp add: busy_state_eq)
  have o: "outstanding busy_state = 1" "length (sent busy_state) = 1"
    by (simp_all add: busy_state_eq)
  have b0: "trim (input (initial_state [] (js_lit ''en'') :: int state)) = []"
    by (simp add: initial_state_def trim_def)
  have b1: "trim (input ready_state) \<noteq> []" "\<not> isTyping ready_state"
    by (simp_all add: ready_state_eq trim_hi)
  note th0 = submit_while_pending [where s = "initial_state [] (js_lit ''en'') :: int state"]
  note th1 = submit_while_pending [where s = ready_state]
  note th2 = submit_while_pending
      [where s = busy_state and now = "js_lit ''t2''" and p = demo_platform and t = demo_t
         and ns = demo_numToString and st = "[]" and lg = "js_lit ''en''"
         and evs = "[Mount (js_lit ''t0''), ChangeInput (js_lit ''hi''), Submit (js_lit ''t1''),
                     ChangeInput (js_lit ''ok'')]"]
  from th0 b0 have c0: "submit_disabled (initial_state [] (js_lit ''en'') :: int state)" by blast
  from th1 b1 have c1: "\<not> submit_disabled ready_state" by blast
  from th2 h1 h2 have c2: "submit_disabled busy_state" by blast
  from th2 busy_state_run h1 h2
  have c3: "2 \<le> outstanding (handleSubmit_dispatch (js_lit ''t2'') busy_state)" by blast
  from th2 h1 h2 o have c4: "outstanding (handleSubmit_dispatch (js_lit ''t2'') busy_state) = 2"
    by simp
  from th2 h1 h2 o have c5: "length (sent (handleSubmit_dispatch (js_lit ''t2'') busy_state)) = 2"
    by simp
  from h1 h2 c0 c1 c2 c4 c5 show ?thesis by blast
qed

subsection \<open>Voice input\<close>

text \<open>
  The second toggle only calls \<^verbatim>\<open>recognition.stop()\<close>; the recording flag is
  cleared by the recogniser's end or error event, which follows the stop. Until one of
  these two events is handled, no other event clears the flag.
\<close>

lemma step_recording:
  assumes "isRecording s" and "e \<noteq> RecognitionEnd" and "e \<noteq> RecognitionError"
  shows "isRecording (step p t ns s e)"
  using assms
  by (cases e) (auto simp: handler_defs split: option.splits outcome.splits reply.splits)

lemma run_recording:
  "isRecording s \<Longrightarrow> RecognitionEnd \<notin> set evs \<Longrightarrow> RecognitionError \<notin> set evs \<Longrightarrow>
   isRecording (run p t ns s evs)"
  unfolding run_def
proof (induction evs arbitrary: s)
  case Nil
  then show ?case by simp
next
  case (Cons e evs)
  from Cons.prems have "isRecording (step p t ns s e)"
    by (auto intro!: step_recording)
  then show ?case using Cons.prems Cons.IH by simp
qed

lemma recording_until_end:
  assumes "recognition s \<noteq> None" and "\<not> isRecording s"
    and "RecognitionEnd \<notin> set evs" and "RecognitionError \<notin> set evs"
  shows "isRecording (run p t ns s ([ToggleVoice, ToggleVoice] @ evs))"
proof -
  have "isRecording (run p t ns s [ToggleVoice, ToggleVoice])"
    using assms(1,2) by (auto simp: run_def toggleVoiceInput_def split: option.splits)
  then show ?thesis
    using assms(3,4) unfolding run_append by (rule run_recording)
qed

text \<open>
  Claim C6. Two presses of the microphone button followed by the recogniser's end
  event, with no result event in between, leave the recording state false and the input
  buffer as it was before the first press, in every state; the same holds when the
  error event ends the recognition. When there is a recogniser and the component was
  not recording, the two presses call \<open>start\<close> and then \<open>stop\<close> on it and leave the
  input buffer unchanged, and after the end event the whole state is the one before the
  first press, apart from the log of these two calls.
\<close>

theorem voice_toggle_twice:
  "\<not> isRecording (run p t ns s [ToggleVoice, ToggleVoice, RecognitionEnd]) \<and>
   input (run p t ns s [ToggleVoice, ToggleVoice, RecognitionEnd]) = input s \<and>
   \<not> isRecording (run p t ns s [ToggleVoice, ToggleVoice, RecognitionError]) \<and>
   input (run p t ns s [ToggleVoice, ToggleVoice, RecognitionError]) = input s \<and>
   input (run p t ns s [ToggleVoice, ToggleVoice]) = input s \<and>
   (recognition s \<noteq> None \<and> \<not> isRecording s \<longrightarrow>
      rec_calls (run p t ns s [ToggleVoice, ToggleVoice]) = rec_calls s @ [RecStart, RecStop] \<and>
      run p t ns s [ToggleVoice, ToggleVoice, RecognitionEnd] =
        s\<lparr>rec_calls := rec_calls s @ [RecStart, RecStop]\<rparr>)"
proof -
  have inp: "input (toggleVoiceInput s') = input s'" for s' :: "'a state"
    by (simp add: toggleVoiceInput_def split: option.splits)
  have always:
    "\<not> isRecording (run p t ns s [ToggleVoice, ToggleVoice, RecognitionEnd]) \<and>
     input (run p t ns s [ToggleVoice, ToggleVoice, RecognitionEnd]) = input s \<and>
     \<not> isRecording (run p t ns s [ToggleVoice, ToggleVoice, RecognitionError]) \<and>
     input (run p t ns s [ToggleVoice, ToggleVoice, RecognitionError]) = input s \<and>
     input (run p t ns s [ToggleVoice, ToggleVoice]) = input s"
    by (simp add: run_def recognition_onend_def recognition_onerror_def inp)
  have started:
    "rec_calls (run p t ns s [ToggleVoice, ToggleVoice]) = rec_calls s @ [RecStart, RecStop] \<and>
     run p t ns s [ToggleVoice, ToggleVoice, RecognitionEnd] =
       s\<lparr>rec_calls := rec_calls s @ [RecStart, RecStop]\<rparr>"
    if "recognition s \<noteq> None" and "\<not> isRecording s"
  proof -
    from that obtain r where r: "recognition s = Some r" by auto
    have whole: "run p t ns s [ToggleVoice, ToggleVoice, RecognitionEnd] =
        s\<lparr>rec_calls := rec_calls s @ [RecStart, RecStop]\<rparr>"
      using r that(2)
      by (cases s) (simp add: run_def toggleVoiceInput_def recognition_onend_def)
    have calls: "rec_calls (run p t ns s [ToggleVoice, ToggleVoice]) =
        rec_calls s @ [RecStart, RecStop]"
      using r that(2) by (simp add: run_def toggleVoiceInput_def)
    from calls whole show ?thesis by simp
  qed
  from always started show ?thesis by blast
qed

theorem voice_toggle_twice_witness:
  "recognition ready_state \<noteq> None \<and> \<not> isRecording ready_state \<and>
   run demo_platform demo_t demo_numToString ready_state [ToggleVoice, ToggleVoice, RecognitionEnd] =
     ready_state\<lparr>rec_calls := [RecStart, RecStop]\<rparr> \<and>
   isRecording (run demo_platform demo_t demo_numToString ready_state
                  [ToggleVoice, ToggleVoice, RecognitionEnd]) = False \<and>
   input (run demo_platform demo_t demo_numToString ready_state
            [ToggleVoice, ToggleVoice, RecognitionEnd]) = js_lit ''hi''"
proof -
  have h1: "recognition ready_state \<noteq> None" by (simp add: ready_state_eq)
  have h2: "\<not> isRecording ready_state" by (simp add: ready_state_eq)
  have i: "input ready_state = js_lit ''hi''" "rec_calls ready_state = []"
    by (simp_all add: ready_state_eq)
  note th = voice_toggle_twice [where s = ready_state and p = demo_platform and t = demo_t
                                  and ns = demo_numToString]
  from th h1 h2 i have a: "run demo_platform demo_t demo_numToString ready_state
        [ToggleVoice, ToggleVoice, RecognitionEnd] = ready_state\<lparr>rec_calls := [RecStart, RecStop]\<rparr>"
    by simp
  from th have b: "isRecording (run demo_platform demo_t demo_numToString ready_state
                  [ToggleVoice, ToggleVoice, RecognitionEnd]) = False"
    by blast
  from th i have c: "input (run demo_platform demo_t demo_numToString ready_state
            [ToggleVoice, ToggleVoice, RecognitionEnd]) = js_lit ''hi''"
    by simp
  from h1 h2 a b c show ?thesis by blast
qed

subsection \<open>System messages\<close>

lemma step_provenance:
  assumes "m \<in> set (messages (step p t ns s e)) \<union> set (store (step p t ns s e))"
    and "role m = ROLE_SYSTEM"
  shows "m \<in> set (messages s) \<union> set (store s)"
  using assms
  by (cases e)
     (auto simp: handler_defs roles_distinct
           split: if_splits option.splits outcome.splits reply.splits)

lemma run_provenance:
  "m \<in> set (messages (run p t ns s evs)) \<union> set (store (run p t ns s evs)) \<Longrightarrow>
   role m = ROLE_SYSTEM \<Longrightarrow> m \<in> set (messages s) \<union> set (store s)"
  unfolding run_def
proof (induction evs arbitrary: s)
  case Nil
  then show ?case by simp
next
  case (Cons e evs)
  from Cons.prems have "m \<in> set (messages (step p t ns s e)) \<union> set (store (step p t ns s e))"
    using Cons.IH [of "step p t ns s e"] by simp
  then show ?case using Cons.prems(2) by (rule step_provenance)
qed

lemma step_headed:
  assumes "list_all headed (sent s)"
  shows "list_all headed (sent (step p t ns s e))"
  using assms
  by (cases e)
     (auto simp: handler_defs apiMessages_def headed_def
           split: if_splits option.splits outcome.splits reply.splits)

lemma run_headed:
  "list_all headed (sent s) \<Longrightarrow> list_all headed (sent (run p t ns s evs))"
  unfolding run_def
  by (induction evs arbitrary: s) (simp_all add: step_headed)

text \<open>
  Claim C8. Over any sequence of events (mounting, a change of language, typing,
  submitting, the settling of a request, sharing the location and its callbacks, the
  microphone button and the recogniser's callbacks), from any state: a system message
  found in the session or in the store afterwards was in the session or in the store
  before, so no event adds one. From the first render over a store without system
  messages, no state that can be reached has one in the session or in the store. Every
  request that was sent begins with a system message.
\<close>

theorem system_role_only_in_requests:
  "(\<forall>m \<in> set (messages (run p t ns s evs)) \<union> set (store (run p t ns s evs)).
      role m = ROLE_SYSTEM \<longrightarrow> m \<in> set (messages s) \<union> set (store s)) \<and>
   ((\<forall>m \<in> set st. role m \<noteq> ROLE_SYSTEM) \<longrightarrow>
      (\<forall>m \<in> set (messages (run p t ns (initial_state st lg) evs)) \<union>
              set (store (run p t ns (initial_state st lg) evs)). role m \<noteq> ROLE_SYSTEM)) \<and>
   list_all headed (sent (run p t ns (initial_state st lg) evs))"
proof -
  have a: "\<forall>m \<in> set (messages (run p t ns s' evs)) \<union> set (store (run p t ns s' evs)).
      role m = ROLE_SYSTEM \<longrightarrow> m \<in> set (messages s') \<union> set (store s')" for s' :: "'a state"
    using run_provenance by blast
  have b: "(\<forall>m \<in> set st. role m \<noteq> ROLE_SYSTEM) \<longrightarrow>
      (\<forall>m \<in> set (messages (run p t ns (initial_state st lg) evs)) \<union>
              set (store (run p t ns (initial_state st lg) evs)). role m \<noteq> ROLE_SYSTEM)"
    using a [of "initial_state st lg"] by (auto simp: initial_state_def)
  have c: "list_all headed (sent (run p t ns (initial_state st lg) evs))"
    by (rule run_headed) (simp add: initial_state_def)
  from a b c show ?thesis by blast
qed

lemma session_run:
  "run demo_platform demo_t demo_numToString (initial_state [stored_greeting] (js_lit ''en''))
     session_events =
     ready_state
     \<lparr>messages :=
        [\<lparr>role = ROLE_ASSISTANT, content = js_lit ''Hello'', created_at = js_lit ''t0''\<rparr>,
         \<lparr>role = ROLE_USER, content = js_lit ''hi'', created_at = js_lit ''t1''\<rparr>,
         \<lparr>role = ROLE_ASSISTANT, content = js_lit ''ok'', created_at = js_lit ''t2''\<rparr>],
      store :=
        [\<lparr>role = ROLE_ASSISTANT, content = js_lit ''Hello'', created_at = js_lit ''t0''\<rparr>,
         \<lparr>role = ROLE_USER, content = js_lit ''hi'', created_at = js_lit ''t1''\<rparr>,
         \<lparr>role = ROLE_ASSISTANT, content = js_lit ''ok'', created_at = js_lit ''t2''\<rparr>],
      input := [], sent := [apiMessages ready_state],
      spoken := [\<lparr>utter_text = js_lit ''ok'', utter_lang = js_lit ''en''\<rparr>]\<rparr>"
proof -
  have ok: "js_lit ''ok'' \<noteq> []" by (simp add: js_lit_def)
  have "run demo_platform demo_t demo_numToString
          (initial_state [stored_greeting] (js_lit ''en'')) [Mount (js_lit ''t0''), ChangeInput (js_lit ''hi'')] =
        ready_state"
    by (simp add: ready_state_eq run_def initial_state_def stored_greeting_def initialize_def
          getChatMessages_def Let_def demo_platform_def)
  then have "run demo_platform demo_t demo_numToString
               (initial_state [stored_greeting] (js_lit ''en'')) session_events =
    run demo_platform demo_t demo_numToString ready_state
      [Submit (js_lit ''t1''), BackendSettles (Fulfilled (ReplyText (js_lit ''ok''))) (js_lit ''t2'')]"
    by (simp add: session_events_def run_def)
  also have "\<dots> = ready_state
     \<lparr>messages :=
        [\<lparr>role = ROLE_ASSISTANT, content = js_lit ''Hello'', created_at = js_lit ''t0''\<rparr>,
         \<lparr>role = ROLE_USER, content = js_lit ''hi'', created_at = js_lit ''t1''\<rparr>,
         \<lparr>role = ROLE_ASSISTANT, content = js_lit ''ok'', created_at = js_lit ''t2''\<rparr>],
      store :=
        [\<lparr>role = ROLE_ASSISTANT, content = js_lit ''Hello'', created_at = js_lit ''t0''\<rparr>,
         \<lparr>role = ROLE_USER, content = js_lit ''hi'', created_at = js_lit ''t1''\<rparr>,
         \<lparr>role = ROLE_ASSISTANT, content = js_lit ''ok'', created_at = js_lit ''t2''\<rparr>],
      input := [], sent := [apiMessages ready_state],
      spoken := [\<lparr>utter_text = js_lit ''ok'', utter_lang = js_lit ''en''\<rparr>]\<rparr>"
    using trim_hi ok
    by (simp add: run_def handleSubmit_dispatch_def handleSubmit_settle_def speakMessage_def
          saveChatMessage_def Let_def ready_state_eq demo_platform_def)
  finally show ?thesis .
qed

theorem system_role_only_in_requests_witness:
  "list_all (\<lambda>m. role m \<noteq> ROLE_SYSTEM) [stored_greeting] \<and>
   messages (run demo_platform demo_t demo_numToString
               (initial_state [stored_greeting] (js_lit ''en'')) session_events) =
     [\<lparr>role = ROLE_ASSISTANT, content = js_lit ''Hello'', created_at = js_lit ''t0''\<rparr>,
      \<lparr>role = ROLE_USER, content = js_lit ''hi'', created_at = js_lit ''t1''\<rparr>,
      \<lparr>role = ROLE_ASSISTANT, content = js_lit ''ok'', created_at = js_lit ''t2''\<rparr>] \<and>
   list_all (\<lambda>m. role m \<noteq> ROLE_SYSTEM)
     (messages (run demo_platform demo_t demo_numToString
                  (initial_state [stored_greeting] (js_lit ''en'')) session_events)) \<and>
   list_all (\<lambda>m. role m \<noteq> ROLE_SYSTEM)
     (store (run demo_platform demo_t demo_numToString
               (initial_state [stored_greeting] (js_lit ''en'')) session_events)) \<and>
   list_all headed (sent (run demo_platform demo_t demo_numToString
                            (initial_state [stored_greeting] (js_lit ''en'')) session_events)) \<and>
   length (sent (run demo_platform demo_t demo_numToString
                   (initial_state [stored_greeting] (js_lit ''en'')) session_events)) = 1 \<and>
   role system_message = ROLE_SYSTEM \<and>
   system_message \<in> set (messages (run demo_platform demo_t demo_numToString
                                      (initial_state [system_message] (js_lit ''en'') :: int state)
                                      [Mount (js_lit ''t0'')])) \<and>
   system_message \<in> set (store (initial_state [system_message] (js_lit ''en'') :: int state))"
proof -
  have e: "\<forall>m \<in> set [stored_greeting]. role m \<noteq> ROLE_SYSTEM"
    by (simp add: stored_greeting_def roles_distinct)
  have r: "role system_message = ROLE_SYSTEM" by (simp add: system_message_def)
  have adopted:
    "system_message \<in> set (messages (run demo_platform demo_t demo_numToString
        (initial_state [system_message] (js_lit ''en'') :: int state) [Mount (js_lit ''t0'')]))"
    by (simp add: run_def initial_state_def initialize_def getChatMessages_def Let_def)
  note th1 = system_role_only_in_requests
      [where p = demo_platform and t = demo_t and ns = demo_numToString
         and s = "initial_state [system_message] (js_lit ''en'') :: int state"
         and evs = "[Mount (js_lit ''t0'')]" and st = "[]" and lg = "js_lit ''en''"]
  from th1 adopted r
  have origin: "system_message \<in> set (store (initial_state [system_message] (js_lit ''en'') :: int state))"
    by (auto simp: initial_state_def)
  note th2 = system_role_only_in_requests
      [where p = demo_platform and t = demo_t and ns = demo_numToString
         and s = "initial_state [stored_greeting] (js_lit ''en'') :: int state"
         and evs = session_events and st = "[stored_greeting]" and lg = "js_lit ''en''"]
  from th2 e have clean:
    "(\<forall>m \<in> set (messages (run demo_platform demo_t demo_numToString
                          (initial_state [stored_greeting] (js_lit ''en'')) session_events)) \<union>
           set (store (run demo_platform demo_t demo_numToString
                          (initial_state [stored_greeting] (js_lit ''en'')) session_events)).
      role m \<noteq> ROLE_SYSTEM) \<and>
     list_all headed (sent (run demo_platform demo_t demo_numToString
                            (initial_state [stored_greeting] (js_lit ''en'')) session_events))"
    by blast
  then have clean_lists:
    "list_all (\<lambda>m. role m \<noteq> ROLE_SYSTEM)
       (messages (run demo_platform demo_t demo_numToString
                    (initial_state [stored_greeting] (js_lit ''en'')) session_events)) \<and>
     list_all (\<lambda>m. role m \<noteq> ROLE_SYSTEM)
       (store (run demo_platform demo_t demo_numToString
                 (initial_state [stored_greeting] (js_lit ''en'')) session_events))"
    unfolding list_all_iff by blast
  have shape:
    "messages (run demo_platform demo_t demo_numToString
                 (initial_state [stored_greeting] (js_lit ''en'')) session_events) =
     [\<lparr>role = ROLE_ASSISTANT, content = js_lit ''Hello'', created_at = js_lit ''t0''\<rparr>,
      \<lparr>role = ROLE_USER, content = js_lit ''hi'', created_at = js_lit ''t1''\<rparr>,
      \<lparr>role = ROLE_ASSISTANT, content = js_lit ''ok'', created_at = js_lit ''t2''\<rparr>] \<and>
     length (sent (run demo_platform demo_t demo_numToString
                   (initial_state [stored_greeting] (js_lit ''en'')) session_events)) = 1"
    by (simp add: session_run)
  from e have e': "list_all (\<lambda>m. role m \<noteq> ROLE_SYSTEM) [stored_greeting]"
    unfolding list_all_iff .
  from e' r adopted origin clean clean_lists shape show ?thesis by blast
qed

end
